theory Spec2Isabelle
  imports Main "HOL-Library.Signed_Division"
begin

section \<open>The ledger stub\<close>

text \<open>
  The chaincode of \<^verbatim>\<open>src/chaincode/marbles.go\<close> talks to the ledger through
  \<^verbatim>\<open>shim.ChaincodeStubInterface\<close>. A value stored under a key is a byte string; Go's
  \<^verbatim>\<open>nil\<close> byte slice is \<open>None\<close>. A Go \<^verbatim>\<open>error\<close> made by \<^verbatim>\<open>errors.New\<close> carries its
  message. What the chaincode prints with \<^verbatim>\<open>fmt.Println\<close> is not part of the model.
\<close>

type_synonym bytes = string

datatype error = Error string

text \<open>
  The stub of one invocation: the function name and the positional arguments of the call,
  the key-value state, and what the ledger answers when it cannot serve a get or a put
  (a store failure is decided by the environment, never by the chaincode).
\<close>

record ChaincodeStub =
  fcn :: string
  params :: "string list"
  state :: "string \<rightharpoonup> bytes"
  get_err :: "string \<Rightarrow> error option"
  put_err :: "string \<Rightarrow> bytes \<Rightarrow> error option"

text \<open>A Go result pair \<^verbatim>\<open>([]byte, error)\<close>, and a handler's effect on the stub.\<close>

type_synonym result = "bytes option \<times> error option"

definition GetFunctionAndParameters :: "ChaincodeStub \<Rightarrow> string \<times> string list" where
  "GetFunctionAndParameters stub = (fcn stub, params stub)"

text \<open>
  The ledger interface, as the specification gives it: \<^verbatim>\<open>get(key) -> bytes|absent\<close> and
  \<^verbatim>\<open>put(key, bytes)\<close>. A key with no value is answered by the absent value and no error
  (the shim's \<^verbatim>\<open>GetState\<close> returns a nil value and a nil error for it); an error is a
  failure of the store. A put that fails stores nothing.
\<close>

definition GetState :: "ChaincodeStub \<Rightarrow> string \<Rightarrow> bytes option \<times> error option" where
  "GetState stub key =
     (case get_err stub key of
        Some e \<Rightarrow> (None, Some e)
      | None \<Rightarrow> (state stub key, None))"

definition PutState :: "ChaincodeStub \<Rightarrow> string \<Rightarrow> bytes \<Rightarrow> error option \<times> ChaincodeStub" where
  "PutState stub key val =
     (case put_err stub key val of
        Some e \<Rightarrow> (Some e, stub)
      | None \<Rightarrow> (None, stub\<lparr>state := (state stub)(key \<mapsto> val)\<rparr>))"

section \<open>Decimal integers: strconv.Atoi and strconv.Itoa\<close>

text \<open>
  \<^verbatim>\<open>strconv.Atoi\<close> accepts an optional sign followed by at least one decimal digit, and
  refuses a value outside the range of \<^verbatim>\<open>int\<close> (64 bits). Its only caller drops the error
  value, so a failure is \<open>None\<close>.
\<close>

definition is_digit :: "char \<Rightarrow> bool" where
  "is_digit ch = (48 \<le> (of_char ch :: nat) \<and> (of_char ch :: nat) \<le> 57)"

definition digit_val :: "char \<Rightarrow> int" where
  "digit_val ch = of_char ch - 48"

definition parse_digits :: "string \<Rightarrow> int" where
  "parse_digits ds = foldl (\<lambda>n ch. n * 10 + digit_val ch) 0 ds"

definition Atoi :: "string \<Rightarrow> int option" where
  "Atoi s =
     (let neg = (s \<noteq> [] \<and> hd s = CHR ''-'');
          ds = (if s \<noteq> [] \<and> (hd s = CHR ''-'' \<or> hd s = CHR ''+'') then tl s else s)
      in if ds = [] \<or> \<not> list_all is_digit ds then None
         else (let n = (if neg then - parse_digits ds else parse_digits ds)
               in if n < - (2 ^ 63) \<or> 2 ^ 63 - 1 < n then None else Some n))"

text \<open>\<^verbatim>\<open>strconv.Itoa\<close>: the decimal digits, most significant first, after a minus sign
  for a negative value.\<close>

definition digit_char :: "nat \<Rightarrow> char" where
  "digit_char d = ''0123456789'' ! (d mod 10)"

fun nat_digits :: "nat \<Rightarrow> string" where
  "nat_digits n =
     (if n < 10 then [digit_char n]
      else nat_digits (n div 10) @ [digit_char (n mod 10)])"

declare nat_digits.simps [simp del]

definition Itoa :: "int \<Rightarrow> string" where
  "Itoa i = (if i < 0 then CHR ''-'' # nat_digits (nat (- i)) else nat_digits (nat i))"

section \<open>Keys and the documents written by Init\<close>

definition marbleIndexStr :: string where
  "marbleIndexStr = ''_marbleindex''"

definition openTradesStr :: string where
  "openTradesStr = ''_opentrades''"

definition ownerIndexStr :: string where
  "ownerIndexStr = ''_ownerindex''"

text \<open>
  \<^verbatim>\<open>json.Marshal\<close> of a \<^verbatim>\<open>MarblesIndex\<close>, an \<^verbatim>\<open>AllTrades\<close> and an \<^verbatim>\<open>OwnersIndex\<close> whose only
  field set is \<^verbatim>\<open>ObjectType\<close>: the fields appear under their json tags in declaration
  order, and the nil slice is encoded as \<^verbatim>\<open>null\<close>.
\<close>

definition empty_MarblesIndex_json :: bytes where
  \<open>empty_MarblesIndex_json = ''{"docType":"MarbleIndex","marbles":null}''\<close>

definition empty_AllTrades_json :: bytes where
  \<open>empty_AllTrades_json = ''{"docType":"Trades","open_trades":null}''\<close>

definition empty_OwnersIndex_json :: bytes where
  \<open>empty_OwnersIndex_json = ''{"docType":"OwnerIndex","owners":null}''\<close>

section \<open>Init, reading and writing\<close>

definition Init :: "ChaincodeStub \<Rightarrow> result \<times> ChaincodeStub" where
  "Init stub =
     (let (_, args) = GetFunctionAndParameters stub in
      if length args \<noteq> 1 then
        ((None, Some (Error ''Incorrect number of arguments. Expecting 1'')), stub)
      else
        (case Atoi (args ! 0) of
           None \<Rightarrow> ((None, Some (Error ''Expecting integer value for asset holding'')), stub)
         | Some Aval \<Rightarrow>
            (case PutState stub ''abc'' (Itoa Aval) of
               (Some e, stub1) \<Rightarrow> ((None, Some e), stub1)
             | (None, stub1) \<Rightarrow>
                (case PutState stub1 marbleIndexStr empty_MarblesIndex_json of
                   (Some e, stub2) \<Rightarrow> ((None, Some e), stub2)
                 | (None, stub2) \<Rightarrow>
                    (case PutState stub2 openTradesStr empty_AllTrades_json of
                       (Some e, stub3) \<Rightarrow> ((None, Some e), stub3)
                     | (None, stub3) \<Rightarrow>
                        (case PutState stub3 ownerIndexStr empty_OwnersIndex_json of
                           (Some e, stub4) \<Rightarrow> ((None, Some e), stub4)
                         | (None, stub4) \<Rightarrow> ((None, None), stub4)))))))"

definition read :: "ChaincodeStub \<Rightarrow> string list \<Rightarrow> result \<times> ChaincodeStub" where
  \<open>read stub args =
     (if length args \<noteq> 1 then
        ((None, Some (Error ''Incorrect number of arguments. Expecting name of the var to query'')),
         stub)
      else
        (let name = args ! 0 in
         case GetState stub name of
           (_, Some e) \<Rightarrow>
             ((None, Some (Error (''{"Error":"Failed to get state for '' @ name @ ''"}''))), stub)
         | (valAsbytes, None) \<Rightarrow> ((valAsbytes, None), stub)))\<close>

text \<open>The handler \<^verbatim>\<open>write\<close> (the name alone is an Isar keyword).\<close>

definition write_value :: "ChaincodeStub \<Rightarrow> string list \<Rightarrow> result \<times> ChaincodeStub" where
  "write_value stub args =
     (if length args \<noteq> 2 then
        ((None, Some (Error
           ''Incorrect number of arguments. Expecting 2. name of the variable and value to set'')),
         stub)
      else
        (let name = args ! 0; val = args ! 1 in
         case PutState stub name val of
           (Some e, stub1) \<Rightarrow> ((None, Some e), stub1)
         | (None, stub1) \<Rightarrow> ((None, None), stub1)))"

section \<open>Invoke\<close>

text \<open>
  The bodies of the handlers \<^verbatim>\<open>delete_marble\<close>, \<^verbatim>\<open>init_marble\<close>, \<^verbatim>\<open>set_owner\<close>,
  \<^verbatim>\<open>open_trade\<close>, \<^verbatim>\<open>perform_trade\<close>, \<^verbatim>\<open>remove_trade\<close>, \<^verbatim>\<open>init_owner\<close> and \<^verbatim>\<open>cleanTrades\<close> are
  not part of the source file; \<^verbatim>\<open>Invoke\<close> is verified for arbitrary ones. A handler takes the
  stub and the arguments and returns its result pair and the stub it leaves behind;
  \<^verbatim>\<open>cleanTrades\<close> takes the stub only and returns an error value.
\<close>

type_synonym handler = "ChaincodeStub \<Rightarrow> string list \<Rightarrow> result \<times> ChaincodeStub"

record handlers =
  delete_marble :: handler
  init_marble :: handler
  set_owner :: handler
  open_trade :: handler
  perform_trade :: handler
  remove_trade :: handler
  init_owner :: handler
  cleanTrades :: "ChaincodeStub \<Rightarrow> error option \<times> ChaincodeStub"

definition Invoke :: "handlers \<Rightarrow> ChaincodeStub \<Rightarrow> result \<times> ChaincodeStub" where
  "Invoke h stub =
     (let (function, args) = GetFunctionAndParameters stub in
      if function = ''init'' then Init stub
      else if function = ''delete_marble'' then
        (let (res, stub1) = delete_marble h stub args;
             (_, stub2) = cleanTrades h stub1
         in (res, stub2))
      else if function = ''write'' then write_value stub args
      else if function = ''init_marble'' then init_marble h stub args
      else if function = ''set_owner'' then
        (let (res, stub1) = set_owner h stub args;
             (_, stub2) = cleanTrades h stub1
         in (res, stub2))
      else if function = ''open_trade'' then open_trade h stub args
      else if function = ''perform_trade'' then
        (let (res, stub1) = perform_trade h stub args;
             (_, stub2) = cleanTrades h stub1
         in (res, stub2))
      else if function = ''remove_trade'' then remove_trade h stub args
      else if function = ''read'' then read stub args
      else if function = ''init_owner'' then init_owner h stub args
      else
        ((None, Some (Error (''Received unknown invoke function name: '' @ [CHR 0x27] @ function
                             @ [CHR 0x27]))),
         stub))"

section \<open>Example stubs\<close>

text \<open>A ledger that serves every get and every put.\<close>

definition healthy_get :: "string \<Rightarrow> error option" where
  "healthy_get key = None"

definition healthy_put :: "string \<Rightarrow> bytes \<Rightarrow> error option" where
  "healthy_put key val = None"

definition healthy_stub :: "string \<Rightarrow> string list \<Rightarrow> (string \<rightharpoonup> bytes) \<Rightarrow> ChaincodeStub" where
  "healthy_stub f ps st =
     \<lparr>fcn = f, params = ps, state = st, get_err = healthy_get, put_err = healthy_put\<rparr>"

text \<open>
  Handlers that leave a trace: each appends its own name to the value stored under
  \<open>trace\<close> and returns that name as its payload.
\<close>

definition leave_trace :: "string \<Rightarrow> ChaincodeStub \<Rightarrow> ChaincodeStub" where
  "leave_trace name stub =
     stub\<lparr>state := (state stub)(''trace'' \<mapsto>
        (case state stub ''trace'' of None \<Rightarrow> name | Some t \<Rightarrow> t @ '','' @ name))\<rparr>"

definition trace_handler :: "string \<Rightarrow> handler" where
  "trace_handler name stub args = ((Some name, None), leave_trace name stub)"

definition trace_cleanTrades :: "ChaincodeStub \<Rightarrow> error option \<times> ChaincodeStub" where
  "trace_cleanTrades stub = (None, leave_trace ''cleanTrades'' stub)"

definition trace_handlers :: handlers where
  "trace_handlers =
     \<lparr>delete_marble = trace_handler ''delete_marble'',
      init_marble = trace_handler ''init_marble'',
      set_owner = trace_handler ''set_owner'',
      open_trade = trace_handler ''open_trade'',
      perform_trade = trace_handler ''perform_trade'',
      remove_trade = trace_handler ''remove_trade'',
      init_owner = trace_handler ''init_owner'',
      cleanTrades = trace_cleanTrades\<rparr>"

text \<open>
  Handlers that fail: each returns an error and leaves the stub alone, and the clean-up
  pass fails too, after marking the ledger.
\<close>

definition failing_handler :: handler where
  "failing_handler stub args = ((None, Some (Error ''handler failed'')), stub)"

definition failing_cleanTrades :: "ChaincodeStub \<Rightarrow> error option \<times> ChaincodeStub" where
  "failing_cleanTrades stub =
     (Some (Error ''clean failed''), stub\<lparr>state := (state stub)(''cleaned'' \<mapsto> ''yes'')\<rparr>)"

definition failing_handlers :: handlers where
  "failing_handlers =
     \<lparr>delete_marble = failing_handler,
      init_marble = failing_handler,
      set_owner = failing_handler,
      open_trade = failing_handler,
      perform_trade = failing_handler,
      remove_trade = failing_handler,
      init_owner = failing_handler,
      cleanTrades = failing_cleanTrades\<rparr>"

text \<open>A ledger in use: indices, trades and a marble record are stored.\<close>

definition used_state :: "string \<rightharpoonup> bytes" where
  "used_state = [''_marbleindex'' \<mapsto> ''old index'', ''_opentrades'' \<mapsto> ''old trades'', ''m1'' \<mapsto> ''a marble'']"

section \<open>The registry and the trade engine\<close>

text \<open>
  The source file declares the documents and \<^verbatim>\<open>makeTimestamp\<close>; the bodies of the handlers
  that work on them are not part of it, so the operations below follow the specification.
  The records are the source's structs without the \<^verbatim>\<open>docType\<close> tag: no operation of the
  specification reads it, and the code that sets it on a marble is not in the source file.
\<close>

definition makeTimestamp :: "int \<Rightarrow> int" where
  "makeTimestamp unixNano = unixNano sdiv (1000000 sdiv 1)"

record Marble =
  Name :: string
  Color :: string
  Size :: int
  Owner :: string

record Description =
  Color :: string
  Size :: int

record Owner =
  Username :: string
  Company :: string
  Timestamp :: int

record AnOpenTrade =
  User :: string
  Timestamp :: int
  Want :: Description
  Willing :: "Description list"

text \<open>The error kinds of the specification's section 7.\<close>

datatype error_kind =
  ArgumentCountError | ArgumentTypeError | NotFoundError | AlreadyExistsError | NoMatchError
  | StoreError

text \<open>
  Modelled from the spec: the persisted entities of its data model, decoded. The marble
  and owner records are keyed by their primary keys; the three singleton documents
  (\<^verbatim>\<open>MarblesIndex\<close>, \<^verbatim>\<open>OwnersIndex\<close>, \<^verbatim>\<open>AllTrades\<close>) are the sequences they hold.
\<close>

record registry =
  marbles :: "string \<rightharpoonup> Marble"
  marbleIndex :: "string list"
  owners :: "string \<rightharpoonup> Owner"
  ownerIndex :: "string list"
  openTrades :: "AnOpenTrade list"

text \<open>
  Modelled from the spec: the Index Manager (section 4.1), whose code is not in the source
  file. \<^verbatim>\<open>addToIndex\<close> appends the name if absent; \<^verbatim>\<open>removeFromIndex\<close> removes the first
  occurrence if present and is a no-op otherwise.
\<close>

definition addToIndex :: "string list \<Rightarrow> string \<Rightarrow> string list" where
  "addToIndex idx name = (if name \<in> set idx then idx else idx @ [name])"

definition removeFromIndex :: "string list \<Rightarrow> string \<Rightarrow> string list" where
  "removeFromIndex idx name = remove1 name idx"

text \<open>
  Modelled from the spec: \<^verbatim>\<open>createMarble\<close> (section 4.2; the handler \<^verbatim>\<open>init_marble\<close> is not in
  the source file). It fails if a marble of that name exists; otherwise it writes the
  record and appends the name to the marble index.
\<close>

definition createMarble ::
  "string \<Rightarrow> string \<Rightarrow> int \<Rightarrow> string \<Rightarrow> registry \<Rightarrow> error_kind option \<times> registry" where
  "createMarble name color sz owner s =
     (case marbles s name of
        Some _ \<Rightarrow> (Some AlreadyExistsError, s)
      | None \<Rightarrow>
          (None,
           s\<lparr>marbles := (marbles s)(name \<mapsto>
                \<lparr>Name = name, Marble.Color = color, Marble.Size = sz, Owner = owner\<rparr>),
             marbleIndex := addToIndex (marbleIndex s) name\<rparr>))"

text \<open>
  Modelled from the spec: \<^verbatim>\<open>deleteMarble\<close> (section 4.2; the handler \<^verbatim>\<open>delete_marble\<close> is not
  in the source file). It fails if no such marble exists; otherwise it removes the record
  and removes the name from the marble index.
\<close>

definition deleteMarble :: "string \<Rightarrow> registry \<Rightarrow> error_kind option \<times> registry" where
  "deleteMarble name s =
     (case marbles s name of
        None \<Rightarrow> (Some NotFoundError, s)
      | Some _ \<Rightarrow>
          (None,
           s\<lparr>marbles := (marbles s)(name := None),
             marbleIndex := removeFromIndex (marbleIndex s) name\<rparr>))"

text \<open>
  Modelled from the spec: \<^verbatim>\<open>setOwner\<close> (section 4.2; the handler \<^verbatim>\<open>set_owner\<close> is not in the
  source file). It fails if the marble does not exist; the new owner is not validated, and
  only the owner field changes.
\<close>

definition setOwner :: "string \<Rightarrow> string \<Rightarrow> registry \<Rightarrow> error_kind option \<times> registry" where
  "setOwner name newOwner s =
     (case marbles s name of
        None \<Rightarrow> (Some NotFoundError, s)
      | Some m \<Rightarrow> (None, s\<lparr>marbles := (marbles s)(name \<mapsto> m\<lparr>Owner := newOwner\<rparr>)\<rparr>))"


text \<open>
  Modelled from the spec: a marble matches a descriptor by exact equality of colour and
  size (section 4.4).
\<close>

definition matches :: "Marble \<Rightarrow> Description \<Rightarrow> bool" where
  "matches m d = (Marble.Color m = Description.Color d \<and> Marble.Size m = Description.Size d)"

text \<open>
  Modelled from the spec: the selection of a marble that the user of a trade can give
  (section 4.4, and the design note "first match in index order"): the first name of the
  marble index whose record is live, is owned by the user and matches some entry of the
  willing list.
\<close>

definition offered :: "registry \<Rightarrow> string \<Rightarrow> Description list \<Rightarrow> string \<Rightarrow> bool" where
  "offered s user willing name =
     (case marbles s name of
        None \<Rightarrow> False
      | Some m \<Rightarrow> Owner m = user \<and> (\<exists>d \<in> set willing. matches m d))"

definition selectMarble :: "registry \<Rightarrow> string \<Rightarrow> Description list \<Rightarrow> string option" where
  "selectMarble s user willing = List.find (offered s user willing) (marbleIndex s)"

text \<open>
  Modelled from the spec: \<^verbatim>\<open>openTrade\<close> (section 4.4; the handler \<^verbatim>\<open>open_trade\<close> is not in the
  source file). It fails if the willing list is empty (the specification does not name the
  error kind; the argument count error is taken); otherwise it appends the offer, stamped
  by \<^verbatim>\<open>makeTimestamp\<close> from the clock reading.
\<close>

definition openTrade ::
  "string \<Rightarrow> Description \<Rightarrow> Description list \<Rightarrow> int \<Rightarrow> registry
     \<Rightarrow> error_kind option \<times> registry" where
  "openTrade user want willing unixNano s =
     (if willing = [] then (Some ArgumentCountError, s)
      else
        (None,
         s\<lparr>openTrades := openTrades s @
              [\<lparr>User = user, Timestamp = makeTimestamp unixNano, Want = want,
                Willing = willing\<rparr>]\<rparr>))"

text \<open>The list without its entry at position \<open>i\<close>.\<close>

definition removeAt :: "nat \<Rightarrow> 'a list \<Rightarrow> 'a list" where
  "removeAt i xs = take i xs @ drop (Suc i) xs"

text \<open>
  Modelled from the spec: \<^verbatim>\<open>performTrade\<close> (section 4.4; the handler \<^verbatim>\<open>perform_trade\<close> is not
  in the source file). An index out of range, or a marble name with no record, is not
  found. If the named marble does not match the trade's want, or the trade's user has no
  marble to give, the operation fails with the no-match error and changes nothing.
  Otherwise the named marble goes to the trade's user, the selected marble goes to the
  counterparty, and the trade leaves the open list.
\<close>

definition performTrade ::
  "int \<Rightarrow> string \<Rightarrow> string \<Rightarrow> registry \<Rightarrow> error_kind option \<times> registry" where
  "performTrade tradeIndex counterpartyOwner marbleName s =
     (if tradeIndex < 0 \<or> int (length (openTrades s)) \<le> tradeIndex then (Some NotFoundError, s)
      else
        (let t = openTrades s ! nat tradeIndex in
         case marbles s marbleName of
           None \<Rightarrow> (Some NotFoundError, s)
         | Some m \<Rightarrow>
             if \<not> matches m (Want t) then (Some NoMatchError, s)
             else
               (case selectMarble s (User t) (Willing t) of
                  None \<Rightarrow> (Some NoMatchError, s)
                | Some given \<Rightarrow>
                    (let s1 = snd (setOwner marbleName (User t) s);
                         s2 = snd (setOwner given counterpartyOwner s1)
                     in (None, s2\<lparr>openTrades := removeAt (nat tradeIndex) (openTrades s2)\<rparr>)))))"


text \<open>
  Modelled from the spec: \<^verbatim>\<open>cleanTrades\<close> (section 4.4; its body is not in the source file).
  A trade stays open exactly when its user still has a marble to give.
\<close>

definition cleanTrades_registry :: "registry \<Rightarrow> registry" where
  "cleanTrades_registry s =
     s\<lparr>openTrades :=
         filter (\<lambda>t. selectMarble s (User t) (Willing t) \<noteq> None) (openTrades s)\<rparr>"

text \<open>Sequences of registry calls; a call that fails leaves the registry as it was.\<close>

datatype registry_op = CreateMarble string string int string | DeleteMarble string

fun apply_op :: "registry_op \<Rightarrow> registry \<Rightarrow> error_kind option \<times> registry" where
  "apply_op (CreateMarble name color sz owner) s = createMarble name color sz owner s"
| "apply_op (DeleteMarble name) s = deleteMarble name s"

fun run_ops :: "registry_op list \<Rightarrow> registry \<Rightarrow> registry" where
  "run_ops [] s = s"
| "run_ops (x # xs) s = run_ops xs (snd (apply_op x s))"

text \<open>The marble index lists exactly the live marbles, each once.\<close>

definition index_consistent :: "registry \<Rightarrow> bool" where
  "index_consistent s = (set (marbleIndex s) = dom (marbles s) \<and> distinct (marbleIndex s))"

text \<open>
  A registry for the trade scenarios: alice holds a blue marble of size 10, bob a green
  one of size 5. Alice has two open offers: the first wants a red marble of size 5 for
  her blue one; the second wants bob's kind of marble for a white one she does not have.
\<close>

definition blue10 :: Description where
  "blue10 = \<lparr>Description.Color = ''blue'', Description.Size = 10\<rparr>"

definition red5 :: Description where
  "red5 = \<lparr>Description.Color = ''red'', Description.Size = 5\<rparr>"

definition green5 :: Description where
  "green5 = \<lparr>Description.Color = ''green'', Description.Size = 5\<rparr>"

definition white1 :: Description where
  "white1 = \<lparr>Description.Color = ''white'', Description.Size = 1\<rparr>"

definition marble_m1 :: Marble where
  "marble_m1 = \<lparr>Name = ''m1'', Marble.Color = ''blue'', Marble.Size = 10, Owner = ''alice''\<rparr>"

definition marble_m2 :: Marble where
  "marble_m2 = \<lparr>Name = ''m2'', Marble.Color = ''green'', Marble.Size = 5, Owner = ''bob''\<rparr>"

definition trade_registry :: registry where
  "trade_registry =
     \<lparr>marbles = [''m1'' \<mapsto> marble_m1, ''m2'' \<mapsto> marble_m2],
      marbleIndex = [''m1'', ''m2''],
      owners = Map.empty,
      ownerIndex = [],
      openTrades =
        [\<lparr>User = ''alice'', Timestamp = 0, Want = red5, Willing = [blue10]\<rparr>,
         \<lparr>User = ''alice'', Timestamp = 1, Want = green5, Willing = [white1]\<rparr>]\<rparr>"

section \<open>The registry held by a ledger\<close>

text \<open>The keys that Init writes; every other key is the primary key of an entity.\<close>

definition reserved_keys :: "string set" where
  "reserved_keys = {''abc'', marbleIndexStr, openTradesStr, ownerIndexStr}"

text \<open>
  The stored bytes are read back by \<^verbatim>\<open>json.Unmarshal\<close>, which is library code: the
  decoders are parameters. A marble or owner record is live under a key when the bytes
  stored there decode to one; a singleton document that is not stored holds nothing.
\<close>

record decoders =
  dec_Marble :: "bytes \<Rightarrow> Marble option"
  dec_MarblesIndex :: "bytes \<Rightarrow> string list"
  dec_Owner :: "bytes \<Rightarrow> Owner option"
  dec_OwnersIndex :: "bytes \<Rightarrow> string list"
  dec_AllTrades :: "bytes \<Rightarrow> AnOpenTrade list"

definition record_at :: "(bytes \<Rightarrow> 'a option) \<Rightarrow> ChaincodeStub \<Rightarrow> string \<Rightarrow> 'a option" where
  "record_at dec stub key =
     (if key \<in> reserved_keys then None
      else (case state stub key of None \<Rightarrow> None | Some b \<Rightarrow> dec b))"

definition document_at :: "(bytes \<Rightarrow> 'a list) \<Rightarrow> ChaincodeStub \<Rightarrow> string \<Rightarrow> 'a list" where
  "document_at dec stub key = (case state stub key of None \<Rightarrow> [] | Some b \<Rightarrow> dec b)"

text \<open>The registry that a ledger holds, as the decoders read it.\<close>

definition registry_of :: "decoders \<Rightarrow> ChaincodeStub \<Rightarrow> registry" where
  "registry_of d stub =
     \<lparr>marbles = record_at (dec_Marble d) stub,
      marbleIndex = document_at (dec_MarblesIndex d) stub marbleIndexStr,
      owners = record_at (dec_Owner d) stub,
      ownerIndex = document_at (dec_OwnersIndex d) stub ownerIndexStr,
      openTrades = document_at (dec_AllTrades d) stub openTradesStr\<rparr>"

text \<open>
  What a successful Init of the source file does to the registry (lemma \<open>Init_decoded\<close>):
  the three singleton documents are overwritten by empty ones, and every marble and owner
  record stays.
\<close>

definition Init_registry :: "registry \<Rightarrow> registry" where
  "Init_registry s = s\<lparr>marbleIndex := [], ownerIndex := [], openTrades := []\<rparr>"

text \<open>
  The decoders read the documents that Init writes as empty sequences (\<^verbatim>\<open>null\<close> decodes
  to the nil slice).
\<close>

definition reads_empty_documents :: "decoders \<Rightarrow> bool" where
  "reads_empty_documents d =
     (dec_MarblesIndex d empty_MarblesIndex_json = []
      \<and> dec_AllTrades d empty_AllTrades_json = []
      \<and> dec_OwnersIndex d empty_OwnersIndex_json = [])"

text \<open>
  A ledger that holds one marble, listed in its index, with decoders that read these two
  documents and the documents of Init.
\<close>

definition m1_json :: bytes where
  \<open>m1_json = ''{"docType":"Marble","name":"m1","color":"blue","size":10,"owner":"alice"}''\<close>

definition index_m1_json :: bytes where
  \<open>index_m1_json = ''{"docType":"MarbleIndex","marbles":["m1"]}''\<close>

definition example_dec_Marble :: "bytes \<Rightarrow> Marble option" where
  "example_dec_Marble b = (if b = m1_json then Some marble_m1 else None)"

definition example_dec_MarblesIndex :: "bytes \<Rightarrow> string list" where
  "example_dec_MarblesIndex b = (if b = index_m1_json then [''m1''] else [])"

definition example_dec_Owner :: "bytes \<Rightarrow> Owner option" where
  "example_dec_Owner b = None"

definition example_dec_OwnersIndex :: "bytes \<Rightarrow> string list" where
  "example_dec_OwnersIndex b = []"

definition example_dec_AllTrades :: "bytes \<Rightarrow> AnOpenTrade list" where
  "example_dec_AllTrades b = []"

definition example_decoders :: decoders where
  "example_decoders =
     \<lparr>dec_Marble = example_dec_Marble, dec_MarblesIndex = example_dec_MarblesIndex,
      dec_Owner = example_dec_Owner, dec_OwnersIndex = example_dec_OwnersIndex,
      dec_AllTrades = example_dec_AllTrades\<rparr>"

definition one_marble_state :: "string \<rightharpoonup> bytes" where
  "one_marble_state = [''_marbleindex'' \<mapsto> index_m1_json, ''m1'' \<mapsto> m1_json]"

definition fresh_stub :: ChaincodeStub where
  "fresh_stub = healthy_stub ''init'' [''0''] Map.empty"

definition used_stub :: ChaincodeStub where
  "used_stub = healthy_stub ''init'' [''0''] one_marble_state"




section \<open>Properties of read and write\<close>

text \<open>
  Claim C5, as stated: read with one argument returns the bytes stored under the key, and
  an error when nothing is stored under it. The second half fails: on a ledger that
  holds nothing under \<open>m1\<close>, read returns the absent value and no error.
\<close>

theorem read_absent_key_no_error:
  "read (healthy_stub ''read'' [''m1''] Map.empty) [''m1'']
     = ((None, None), healthy_stub ''read'' [''m1''] Map.empty)"
  by (simp add: read_def GetState_def healthy_stub_def healthy_get_def)

text \<open>
  Claim C5, amended: read with exactly one argument hands back what the ledger's get
  answers for that key, unmodified and unvalidated: the stored bytes, or the absent value
  with no error when nothing is stored. It returns an error only when the get itself
  fails, and it never changes the stub.
\<close>

theorem read_passthrough:
  \<open>read stub [key] =
     (case get_err stub key of
        Some e \<Rightarrow>
          ((None, Some (Error (''{"Error":"Failed to get state for '' @ key @ ''"}''))), stub)
      | None \<Rightarrow> ((state stub key, None), stub))\<close>
  by (simp add: read_def GetState_def split: option.splits)

text \<open>
  Claim C8: write with a key and a value stores exactly the value under the key and
  returns no error, on a ledger that accepts the put; when the ledger refuses the put,
  write returns the ledger's error and the stub is unchanged. In both cases every other
  key keeps its value. No index is consulted or maintained: an index key is written like
  any other key.
\<close>

theorem write_stores_exactly_the_key:
  "(put_err stub key val = None \<longrightarrow>
      write_value stub [key, val]
        = ((None, None), stub\<lparr>state := (state stub)(key \<mapsto> val)\<rparr>)
      \<and> state (snd (write_value stub [key, val])) key = Some val)
   \<and> (\<forall>e. put_err stub key val = Some e \<longrightarrow>
      write_value stub [key, val] = ((None, Some e), stub))
   \<and> (\<forall>k. k \<noteq> key \<longrightarrow> state (snd (write_value stub [key, val])) k = state stub k)"
  by (cases "put_err stub key val") (simp_all add: write_value_def PutState_def)

theorem write_stores_exactly_the_key_witness:
  "write_value (healthy_stub ''write'' [''_marbleindex'', ''junk'']
                  [''_marbleindex'' \<mapsto> empty_MarblesIndex_json, ''m1'' \<mapsto> ''x''])
               [''_marbleindex'', ''junk'']
     = ((None, None),
        healthy_stub ''write'' [''_marbleindex'', ''junk'']
          [''_marbleindex'' \<mapsto> ''junk'', ''m1'' \<mapsto> ''x''])"
proof -
  let ?stub = "healthy_stub ''write'' [''_marbleindex'', ''junk'']
                 [''_marbleindex'' \<mapsto> empty_MarblesIndex_json, ''m1'' \<mapsto> ''x'']"
  have ok: "put_err ?stub ''_marbleindex'' ''junk'' = None"
    by (simp add: healthy_stub_def healthy_put_def)
  have upd: "[''_marbleindex'' \<mapsto> empty_MarblesIndex_json, ''m1'' \<mapsto> ''x''](''_marbleindex'' \<mapsto> ''junk'')
               = [''_marbleindex'' \<mapsto> ''junk'', ''m1'' \<mapsto> ''x'']"
    by (rule ext) simp
  from write_stores_exactly_the_key [of ?stub "''_marbleindex''" "''junk''"] ok
  have "write_value ?stub [''_marbleindex'', ''junk'']
          = ((None, None), ?stub\<lparr>state := (state ?stub)(''_marbleindex'' \<mapsto> ''junk'')\<rparr>)"
    by blast
  with upd show ?thesis
    by (simp add: healthy_stub_def)
qed

section \<open>Validation failures\<close>

lemma Atoi_abc: "Atoi ''abc'' = None"
  by (simp add: Atoi_def is_digit_def)







section \<open>Properties of Init\<close>

lemma Atoi_plus_42: "Atoi ''+42'' = Some 42"
  by (simp add: Atoi_def is_digit_def parse_digits_def digit_val_def)

lemma Itoa_42: "Itoa 42 = ''42''"
  by (simp add: Itoa_def nat_digits.simps digit_char_def)

text \<open>What Itoa writes, Atoi reads back as the same integer.\<close>

lemma digit_char_props:
  assumes "d < 10"
  shows "is_digit (digit_char d) \<and> digit_val (digit_char d) = int d
         \<and> digit_char d \<noteq> CHR ''-'' \<and> digit_char d \<noteq> CHR ''+''"
proof -
  from assms have "d \<in> {0, 1, 2, 3, 4, 5, 6, 7, 8, 9}" by auto
  then show ?thesis
    by (auto simp add: digit_char_def is_digit_def digit_val_def)
qed

lemma parse_digits_snoc:
  "parse_digits (ds @ [ch]) = parse_digits ds * 10 + digit_val ch"
  by (simp add: parse_digits_def)

lemma nat_digits_props:
  "nat_digits n \<noteq> [] \<and> list_all is_digit (nat_digits n) \<and> parse_digits (nat_digits n) = int n"
proof (induction n rule: nat_digits.induct)
  case (1 n)
  show ?case
  proof (cases "n < 10")
    case True
    then show ?thesis
      using digit_char_props [of n]
      by (simp add: nat_digits.simps [of n] parse_digits_def)
  next
    case False
    have lt: "n mod 10 < 10" by simp
    from False 1 have ih: "nat_digits (n div 10) \<noteq> []"
      "list_all is_digit (nat_digits (n div 10))"
      "parse_digits (nat_digits (n div 10)) = int (n div 10)"
      by simp_all
    from False ih digit_char_props [OF lt] show ?thesis
      by (simp add: nat_digits.simps [of n] parse_digits_snoc zdiv_int zmod_int)
  qed
qed

lemma hd_nat_digits:
  "hd (nat_digits n) \<noteq> CHR ''-'' \<and> hd (nat_digits n) \<noteq> CHR ''+''"
proof -
  from nat_digits_props [of n] have ne: "nat_digits n \<noteq> []"
    and dg: "list_all is_digit (nat_digits n)" by simp_all
  from ne have "hd (nat_digits n) \<in> set (nat_digits n)" by simp
  with dg have "is_digit (hd (nat_digits n))" by (simp add: list_all_iff)
  then show ?thesis by (auto simp add: is_digit_def)
qed

lemma Atoi_Itoa:
  assumes "- (2 ^ 63) \<le> v" and "v \<le> 2 ^ 63 - 1"
  shows "Atoi (Itoa v) = Some v"
proof (cases "v < 0")
  case True
  with assms nat_digits_props [of "nat (- v)"] show ?thesis
    by (simp add: Atoi_def Itoa_def)
next
  case False
  with assms nat_digits_props [of "nat v"] hd_nat_digits [of "nat v"] show ?thesis
    by (simp add: Atoi_def Itoa_def)
qed

lemma Atoi_range: "Atoi a = Some v \<Longrightarrow> - (2 ^ 63) \<le> v \<and> v \<le> 2 ^ 63 - 1"
  by (auto simp add: Atoi_def Let_def split: if_splits)

lemma Init_success:
  assumes "params stub = [a]" and "Atoi a = Some v"
    and "put_err stub ''abc'' (Itoa v) = None"
    and "put_err stub marbleIndexStr empty_MarblesIndex_json = None"
    and "put_err stub openTradesStr empty_AllTrades_json = None"
    and "put_err stub ownerIndexStr empty_OwnersIndex_json = None"
  shows "Init stub =
           ((None, None),
            stub\<lparr>state := (state stub)
               (''abc'' \<mapsto> Itoa v,
                marbleIndexStr \<mapsto> empty_MarblesIndex_json,
                openTradesStr \<mapsto> empty_AllTrades_json,
                ownerIndexStr \<mapsto> empty_OwnersIndex_json)\<rparr>)"
  using assms by (simp add: Init_def GetFunctionAndParameters_def PutState_def)

lemma Init_failure:
  assumes "length (params stub) \<noteq> 1 \<or> (\<exists>a. params stub = [a] \<and> Atoi a = None)"
  shows "\<exists>e. Init stub = ((None, Some e), stub)"
  using assms by (auto simp add: Init_def GetFunctionAndParameters_def)

lemma Invoke_init: "fcn stub = ''init'' \<Longrightarrow> Invoke h stub = Init stub"
  by (simp add: Invoke_def GetFunctionAndParameters_def)

text \<open>
  Claim C9: invoked under the name \<open>init\<close> with exactly one argument that
  \<^verbatim>\<open>strconv.Atoi\<close> reads as an integer, on a ledger that accepts the four puts, the
  chaincode stores the integer in decimal under \<open>abc\<close> (a string that reads back as the
  same integer) and overwrites the marble index, the open trades and the owner index
  with their empty documents, returning no error; every other key keeps its value. With
  another argument count, or an argument that is not an integer, it returns an error and
  the stub is unchanged.
\<close>

theorem Invoke_init_resets:
  "(fcn stub = ''init'' \<and> params stub = [a] \<and> Atoi a = Some v
      \<and> put_err stub ''abc'' (Itoa v) = None
      \<and> put_err stub marbleIndexStr empty_MarblesIndex_json = None
      \<and> put_err stub openTradesStr empty_AllTrades_json = None
      \<and> put_err stub ownerIndexStr empty_OwnersIndex_json = None
    \<longrightarrow> Invoke h stub =
           ((None, None),
            stub\<lparr>state := (state stub)
               (''abc'' \<mapsto> Itoa v,
                marbleIndexStr \<mapsto> empty_MarblesIndex_json,
                openTradesStr \<mapsto> empty_AllTrades_json,
                ownerIndexStr \<mapsto> empty_OwnersIndex_json)\<rparr>)
        \<and> Atoi (Itoa v) = Some v)
   \<and> (fcn stub = ''init''
        \<and> (length (params stub) \<noteq> 1 \<or> (\<exists>b. params stub = [b] \<and> Atoi b = None))
    \<longrightarrow> (\<exists>e. Invoke h stub = ((None, Some e), stub)))"
proof (intro conjI impI)
  assume pre: "fcn stub = ''init'' \<and> params stub = [a] \<and> Atoi a = Some v
      \<and> put_err stub ''abc'' (Itoa v) = None
      \<and> put_err stub marbleIndexStr empty_MarblesIndex_json = None
      \<and> put_err stub openTradesStr empty_AllTrades_json = None
      \<and> put_err stub ownerIndexStr empty_OwnersIndex_json = None"
  then show "Invoke h stub =
           ((None, None),
            stub\<lparr>state := (state stub)
               (''abc'' \<mapsto> Itoa v,
                marbleIndexStr \<mapsto> empty_MarblesIndex_json,
                openTradesStr \<mapsto> empty_AllTrades_json,
                ownerIndexStr \<mapsto> empty_OwnersIndex_json)\<rparr>)"
    using Init_success [of stub a v] Invoke_init [of stub h] by simp
  from pre have "Atoi a = Some v" by simp
  then show "Atoi (Itoa v) = Some v"
    using Atoi_range [of a v] Atoi_Itoa [of v] by simp
next
  assume "fcn stub = ''init''
        \<and> (length (params stub) \<noteq> 1 \<or> (\<exists>b. params stub = [b] \<and> Atoi b = None))"
  then show "\<exists>e. Invoke h stub = ((None, Some e), stub)"
    using Init_failure [of stub] Invoke_init [of stub h] by simp
qed

theorem Invoke_init_resets_witness:
  "map (state (snd (Invoke trace_handlers (healthy_stub ''init'' [''+42''] used_state))))
       [''abc'', ''_marbleindex'', ''_opentrades'', ''_ownerindex'', ''m1'']
     = [Some ''42'', Some empty_MarblesIndex_json, Some empty_AllTrades_json,
        Some empty_OwnersIndex_json, Some ''a marble'']
   \<and> fst (Invoke trace_handlers (healthy_stub ''init'' [''+42''] used_state)) = (None, None)
   \<and> Invoke trace_handlers (healthy_stub ''init'' [''abc''] used_state)
       = ((None, Some (Error ''Expecting integer value for asset holding'')),
          healthy_stub ''init'' [''abc''] used_state)"
proof -
  let ?s = "healthy_stub ''init'' [''+42''] used_state"
  have pre: "fcn ?s = ''init'' \<and> params ?s = [''+42''] \<and> Atoi ''+42'' = Some 42
      \<and> put_err ?s ''abc'' (Itoa 42) = None
      \<and> put_err ?s marbleIndexStr empty_MarblesIndex_json = None
      \<and> put_err ?s openTradesStr empty_AllTrades_json = None
      \<and> put_err ?s ownerIndexStr empty_OwnersIndex_json = None"
    by (simp add: healthy_stub_def healthy_put_def Atoi_plus_42)
  have ok: "Invoke trace_handlers ?s =
           ((None, None),
            ?s\<lparr>state := (state ?s)
               (''abc'' \<mapsto> Itoa 42,
                marbleIndexStr \<mapsto> empty_MarblesIndex_json,
                openTradesStr \<mapsto> empty_AllTrades_json,
                ownerIndexStr \<mapsto> empty_OwnersIndex_json)\<rparr>)"
    using Invoke_init_resets [of ?s "''+42''" 42 trace_handlers] pre by blast
  have bad: "Invoke trace_handlers (healthy_stub ''init'' [''abc''] used_state)
       = ((None, Some (Error ''Expecting integer value for asset holding'')),
          healthy_stub ''init'' [''abc''] used_state)"
    by (simp add: Invoke_def Init_def GetFunctionAndParameters_def healthy_stub_def Atoi_abc)
  show ?thesis
    unfolding ok using bad
    by (simp add: Itoa_42 healthy_stub_def used_state_def marbleIndexStr_def openTradesStr_def
        ownerIndexStr_def)
qed

section \<open>Properties of Invoke\<close>

text \<open>
  Claim C2: for the function names \<open>delete_marble\<close>, \<open>set_owner\<close> and \<open>perform_trade\<close>,
  Invoke runs the handler and then cleanTrades on the stub the handler left, and returns
  the handler's result with the stub cleanTrades left. For \<open>init_marble\<close>, \<open>open_trade\<close>,
  \<open>remove_trade\<close>, \<open>init_owner\<close>, \<open>read\<close> and \<open>write\<close>, Invoke is the handler alone, and
  replacing cleanTrades by any other function changes nothing.
\<close>

theorem Invoke_cleanTrades_post_step:
  "(fcn stub = ''delete_marble'' \<longrightarrow>
      Invoke h stub =
        (fst (delete_marble h stub (params stub)),
         snd (cleanTrades h (snd (delete_marble h stub (params stub))))))
   \<and> (fcn stub = ''set_owner'' \<longrightarrow>
      Invoke h stub =
        (fst (set_owner h stub (params stub)),
         snd (cleanTrades h (snd (set_owner h stub (params stub))))))
   \<and> (fcn stub = ''perform_trade'' \<longrightarrow>
      Invoke h stub =
        (fst (perform_trade h stub (params stub)),
         snd (cleanTrades h (snd (perform_trade h stub (params stub))))))
   \<and> (fcn stub = ''init_marble'' \<longrightarrow> Invoke h stub = init_marble h stub (params stub))
   \<and> (fcn stub = ''open_trade'' \<longrightarrow> Invoke h stub = open_trade h stub (params stub))
   \<and> (fcn stub = ''remove_trade'' \<longrightarrow> Invoke h stub = remove_trade h stub (params stub))
   \<and> (fcn stub = ''init_owner'' \<longrightarrow> Invoke h stub = init_owner h stub (params stub))
   \<and> (fcn stub = ''read'' \<longrightarrow> Invoke h stub = read stub (params stub))
   \<and> (fcn stub = ''write'' \<longrightarrow> Invoke h stub = write_value stub (params stub))
   \<and> (fcn stub \<in> {''init_marble'', ''open_trade'', ''remove_trade'', ''init_owner'', ''read'',
                     ''write''} \<longrightarrow>
        Invoke (h\<lparr>cleanTrades := c\<rparr>) stub = Invoke h stub)"
  by (auto simp add: Invoke_def GetFunctionAndParameters_def split: prod.splits)

theorem Invoke_cleanTrades_post_step_witness:
  "state (snd (Invoke trace_handlers (healthy_stub ''delete_marble'' [''m1''] Map.empty))) ''trace''
     = Some ''delete_marble,cleanTrades''
   \<and> state (snd (Invoke trace_handlers (healthy_stub ''set_owner'' [''m1'', ''bob''] Map.empty))) ''trace''
     = Some ''set_owner,cleanTrades''
   \<and> state (snd (Invoke trace_handlers (healthy_stub ''perform_trade'' [] Map.empty))) ''trace''
     = Some ''perform_trade,cleanTrades''
   \<and> state (snd (Invoke trace_handlers (healthy_stub ''init_marble'' [] Map.empty))) ''trace''
     = Some ''init_marble''
   \<and> state (snd (Invoke trace_handlers (healthy_stub ''open_trade'' [] Map.empty))) ''trace''
     = Some ''open_trade''
   \<and> state (snd (Invoke trace_handlers (healthy_stub ''remove_trade'' [] Map.empty))) ''trace''
     = Some ''remove_trade''
   \<and> state (snd (Invoke trace_handlers (healthy_stub ''init_owner'' [] Map.empty))) ''trace''
     = Some ''init_owner''
   \<and> state (snd (Invoke trace_handlers (healthy_stub ''read'' [''trace''] Map.empty))) ''trace''
     = None
   \<and> state (snd (Invoke trace_handlers (healthy_stub ''write'' [''k'', ''v''] Map.empty))) ''trace''
     = None"
  using Invoke_cleanTrades_post_step
          [of "healthy_stub ''delete_marble'' [''m1''] Map.empty" trace_handlers]
        Invoke_cleanTrades_post_step
          [of "healthy_stub ''set_owner'' [''m1'', ''bob''] Map.empty" trace_handlers]
        Invoke_cleanTrades_post_step
          [of "healthy_stub ''perform_trade'' [] Map.empty" trace_handlers]
        Invoke_cleanTrades_post_step
          [of "healthy_stub ''init_marble'' [] Map.empty" trace_handlers]
        Invoke_cleanTrades_post_step
          [of "healthy_stub ''open_trade'' [] Map.empty" trace_handlers]
        Invoke_cleanTrades_post_step
          [of "healthy_stub ''remove_trade'' [] Map.empty" trace_handlers]
        Invoke_cleanTrades_post_step
          [of "healthy_stub ''init_owner'' [] Map.empty" trace_handlers]
        Invoke_cleanTrades_post_step
          [of "healthy_stub ''read'' [''trace''] Map.empty" trace_handlers]
        Invoke_cleanTrades_post_step
          [of "healthy_stub ''write'' [''k'', ''v''] Map.empty" trace_handlers]
  by (simp add: healthy_stub_def trace_handlers_def trace_handler_def trace_cleanTrades_def
      leave_trace_def read_def write_value_def GetState_def PutState_def healthy_get_def
      healthy_put_def)

text \<open>
  Claim C10: for \<open>delete_marble\<close>, \<open>set_owner\<close> and \<open>perform_trade\<close>, whatever payload
  and error the handler returns (an error included) and whatever cleanTrades returns
  (an error included), Invoke returns the handler's payload and error unchanged, on the
  stub cleanTrades left behind.
\<close>

theorem Invoke_keeps_handler_result:
  "(fcn stub = ''delete_marble''
      \<and> delete_marble h stub (params stub) = ((res, err), stub1)
      \<and> cleanTrades h stub1 = (cerr, stub2)
    \<longrightarrow> Invoke h stub = ((res, err), stub2))
   \<and> (fcn stub = ''set_owner''
      \<and> set_owner h stub (params stub) = ((res, err), stub1)
      \<and> cleanTrades h stub1 = (cerr, stub2)
    \<longrightarrow> Invoke h stub = ((res, err), stub2))
   \<and> (fcn stub = ''perform_trade''
      \<and> perform_trade h stub (params stub) = ((res, err), stub1)
      \<and> cleanTrades h stub1 = (cerr, stub2)
    \<longrightarrow> Invoke h stub = ((res, err), stub2))"
  by (simp add: Invoke_def GetFunctionAndParameters_def)

theorem Invoke_keeps_handler_result_witness:
  "Invoke failing_handlers (healthy_stub ''delete_marble'' [''m1''] Map.empty)
     = ((None, Some (Error ''handler failed'')),
        healthy_stub ''delete_marble'' [''m1''] [''cleaned'' \<mapsto> ''yes''])
   \<and> Invoke failing_handlers (healthy_stub ''set_owner'' [''m1'', ''bob''] Map.empty)
     = ((None, Some (Error ''handler failed'')),
        healthy_stub ''set_owner'' [''m1'', ''bob''] [''cleaned'' \<mapsto> ''yes''])
   \<and> Invoke failing_handlers (healthy_stub ''perform_trade'' [] Map.empty)
     = ((None, Some (Error ''handler failed'')),
        healthy_stub ''perform_trade'' [] [''cleaned'' \<mapsto> ''yes''])"
  using Invoke_keeps_handler_result
          [of "healthy_stub ''delete_marble'' [''m1''] Map.empty" failing_handlers
              None "Some (Error ''handler failed'')"
              "healthy_stub ''delete_marble'' [''m1''] Map.empty"
              "Some (Error ''clean failed'')"
              "healthy_stub ''delete_marble'' [''m1''] [''cleaned'' \<mapsto> ''yes'']"]
        Invoke_keeps_handler_result
          [of "healthy_stub ''set_owner'' [''m1'', ''bob''] Map.empty" failing_handlers
              None "Some (Error ''handler failed'')"
              "healthy_stub ''set_owner'' [''m1'', ''bob''] Map.empty"
              "Some (Error ''clean failed'')"
              "healthy_stub ''set_owner'' [''m1'', ''bob''] [''cleaned'' \<mapsto> ''yes'']"]
        Invoke_keeps_handler_result
          [of "healthy_stub ''perform_trade'' [] Map.empty" failing_handlers
              None "Some (Error ''handler failed'')"
              "healthy_stub ''perform_trade'' [] Map.empty"
              "Some (Error ''clean failed'')"
              "healthy_stub ''perform_trade'' [] [''cleaned'' \<mapsto> ''yes'']"]
  by (simp add: healthy_stub_def failing_handlers_def failing_handler_def
      failing_cleanTrades_def)

section \<open>The marble index\<close>

lemma index_consistent_createMarble:
  "index_consistent s \<Longrightarrow> index_consistent (snd (createMarble name color sz owner s))"
  by (auto simp add: index_consistent_def createMarble_def addToIndex_def split: option.splits)

lemma index_consistent_deleteMarble:
  "index_consistent s \<Longrightarrow> index_consistent (snd (deleteMarble name s))"
  by (auto simp add: index_consistent_def deleteMarble_def removeFromIndex_def
      split: option.splits)

lemma index_consistent_apply_op:
  "index_consistent s \<Longrightarrow> index_consistent (snd (apply_op x s))"
  by (cases x) (simp_all add: index_consistent_createMarble index_consistent_deleteMarble)

lemma index_consistent_run_ops:
  "index_consistent s \<Longrightarrow> index_consistent (run_ops xs s)"
  by (induction xs arbitrary: s) (simp_all add: index_consistent_apply_op)

text \<open>Init, decoded: a successful Init writes four keys and keeps every other one.\<close>

lemma Init_ok_state:
  assumes "Init stub = ((None, None), stub')"
  shows "\<exists>v. stub' = stub\<lparr>state := (state stub)
               (''abc'' \<mapsto> Itoa v,
                marbleIndexStr \<mapsto> empty_MarblesIndex_json,
                openTradesStr \<mapsto> empty_AllTrades_json,
                ownerIndexStr \<mapsto> empty_OwnersIndex_json)\<rparr>"
  using assms
  by (auto simp add: Init_def GetFunctionAndParameters_def PutState_def
      split: if_splits option.splits)

lemma key_names_distinct:
  "marbleIndexStr \<noteq> openTradesStr" "marbleIndexStr \<noteq> ownerIndexStr"
  "openTradesStr \<noteq> ownerIndexStr" "''abc'' \<noteq> marbleIndexStr" "''abc'' \<noteq> openTradesStr"
  "''abc'' \<noteq> ownerIndexStr"
  by (simp_all add: marbleIndexStr_def openTradesStr_def ownerIndexStr_def)

lemma record_at_Init:
  "record_at dec (stub\<lparr>state := (state stub)
               (''abc'' \<mapsto> a, marbleIndexStr \<mapsto> b, openTradesStr \<mapsto> c, ownerIndexStr \<mapsto> e)\<rparr>)
     = record_at dec stub"
  by (rule ext) (simp add: record_at_def reserved_keys_def)

lemma Init_decoded:
  assumes "Init stub = ((None, None), stub')" and "reads_empty_documents d"
  shows "registry_of d stub' = Init_registry (registry_of d stub)"
proof -
  from assms(1) obtain v where "stub' = stub\<lparr>state := (state stub)
               (''abc'' \<mapsto> Itoa v,
                marbleIndexStr \<mapsto> empty_MarblesIndex_json,
                openTradesStr \<mapsto> empty_AllTrades_json,
                ownerIndexStr \<mapsto> empty_OwnersIndex_json)\<rparr>"
    using Init_ok_state by blast
  with assms(2) show ?thesis
    using key_names_distinct
    by (simp add: registry_of_def Init_registry_def record_at_Init document_at_def
        reads_empty_documents_def)
qed

lemma index_consistent_Init_registry:
  "marbles s = Map.empty \<Longrightarrow> index_consistent (Init_registry s)"
  by (simp add: index_consistent_def Init_registry_def)

lemma example_reads_empty: "reads_empty_documents example_decoders"
  by (simp add: reads_empty_documents_def example_decoders_def example_dec_MarblesIndex_def
      example_dec_AllTrades_def example_dec_OwnersIndex_def empty_MarblesIndex_json_def
      index_m1_json_def)

lemma Atoi_zero: "Atoi ''0'' = Some 0"
  by (simp add: Atoi_def is_digit_def parse_digits_def digit_val_def)

lemma Itoa_zero: "Itoa 0 = ''0''"
  by (simp add: Itoa_def nat_digits.simps digit_char_def)

lemma Init_fresh:
  "Init fresh_stub
     = ((None, None),
        healthy_stub ''init'' [''0'']
          [''abc'' \<mapsto> ''0'',
           marbleIndexStr \<mapsto> empty_MarblesIndex_json,
           openTradesStr \<mapsto> empty_AllTrades_json,
           ownerIndexStr \<mapsto> empty_OwnersIndex_json])"
  by (simp add: Init_def GetFunctionAndParameters_def PutState_def healthy_stub_def
      healthy_put_def Atoi_zero Itoa_zero fresh_stub_def)

lemma Init_used:
  "Init used_stub
     = ((None, None),
        healthy_stub ''init'' [''0'']
          (one_marble_state(''abc'' \<mapsto> ''0'',
             marbleIndexStr \<mapsto> empty_MarblesIndex_json,
             openTradesStr \<mapsto> empty_AllTrades_json,
             ownerIndexStr \<mapsto> empty_OwnersIndex_json)))"
  by (simp add: Init_def GetFunctionAndParameters_def PutState_def healthy_stub_def
      healthy_put_def Atoi_zero Itoa_zero used_stub_def)

lemma used_before:
  "marbleIndex (registry_of example_decoders used_stub) = [''m1'']
   \<and> marbles (registry_of example_decoders used_stub) ''m1'' = Some marble_m1"
  by (simp add: registry_of_def document_at_def record_at_def reserved_keys_def used_stub_def
      healthy_stub_def one_marble_state_def example_decoders_def example_dec_Marble_def
      example_dec_MarblesIndex_def marbleIndexStr_def openTradesStr_def ownerIndexStr_def)

text \<open>
  Claim C1, as stated: from the initialized state, every sequence of createMarble and
  deleteMarble calls leaves the marble index listing exactly the live marbles. This fails
  when Init runs on a ledger that holds a marble: Init empties the index and keeps the
  record, so the marble is live and not listed, before any call and after a createMarble
  of the same name, which fails because the record exists.
\<close>

theorem reset_leaves_marbles_off_the_index:
  "fst (Init used_stub) = (None, None)
   \<and> marbleIndex (run_ops [] (registry_of example_decoders (snd (Init used_stub)))) = []
   \<and> marbles (run_ops [] (registry_of example_decoders (snd (Init used_stub)))) ''m1''
       = Some marble_m1
   \<and> marbleIndex (run_ops [CreateMarble ''m1'' ''blue'' 10 ''alice'']
        (registry_of example_decoders (snd (Init used_stub)))) = []
   \<and> marbles (run_ops [CreateMarble ''m1'' ''blue'' 10 ''alice'']
        (registry_of example_decoders (snd (Init used_stub)))) ''m1'' = Some marble_m1
   \<and> set (marbleIndex (run_ops [CreateMarble ''m1'' ''blue'' 10 ''alice'']
        (registry_of example_decoders (snd (Init used_stub)))))
      \<noteq> dom (marbles (run_ops [CreateMarble ''m1'' ''blue'' 10 ''alice'']
        (registry_of example_decoders (snd (Init used_stub)))))"
proof -
  let ?R = "registry_of example_decoders (snd (Init used_stub))"
  have idx: "marbleIndex ?R = []"
    by (simp add: Init_used registry_of_def document_at_def healthy_stub_def
        one_marble_state_def example_decoders_def example_dec_MarblesIndex_def
        marbleIndexStr_def openTradesStr_def ownerIndexStr_def empty_MarblesIndex_json_def
        index_m1_json_def)
  have m1: "marbles ?R ''m1'' = Some marble_m1"
    by (simp add: Init_used registry_of_def record_at_def reserved_keys_def healthy_stub_def
        one_marble_state_def example_decoders_def example_dec_Marble_def
        marbleIndexStr_def openTradesStr_def ownerIndexStr_def)
  have same: "run_ops [CreateMarble ''m1'' ''blue'' 10 ''alice''] ?R = ?R"
    using m1 by (simp add: createMarble_def)
  have "''m1'' \<in> dom (marbles ?R)" using m1 by blast
  with idx have "set (marbleIndex ?R) \<noteq> dom (marbles ?R)" by auto
  with idx m1 same show ?thesis by (simp add: Init_used)
qed

text \<open>
  Claim C1, amended: from a state in which the marble index lists exactly the live marbles,
  each once, and in particular from the state that a successful Init leaves on a ledger
  that holds no marble record, every sequence of createMarble and deleteMarble calls,
  failed ones included, leaves the names in the marble index equal to the primary keys of
  the live marble records, with no name listed twice.
\<close>

theorem marble_index_matches_live_marbles:
  "(set (marbleIndex s) = dom (marbles s) \<and> distinct (marbleIndex s) \<longrightarrow>
      set (marbleIndex (run_ops xs s)) = dom (marbles (run_ops xs s))
      \<and> distinct (marbleIndex (run_ops xs s)))
   \<and> (Init stub = ((None, None), stub') \<and> reads_empty_documents d
        \<and> marbles (registry_of d stub) = Map.empty \<longrightarrow>
      set (marbleIndex (run_ops xs (registry_of d stub')))
        = dom (marbles (run_ops xs (registry_of d stub')))
      \<and> distinct (marbleIndex (run_ops xs (registry_of d stub'))))"
proof (intro conjI impI)
  assume "set (marbleIndex s) = dom (marbles s) \<and> distinct (marbleIndex s)"
  then have "index_consistent (run_ops xs s)"
    using index_consistent_run_ops [of s xs] by (simp add: index_consistent_def)
  then show "set (marbleIndex (run_ops xs s)) = dom (marbles (run_ops xs s))"
    and "distinct (marbleIndex (run_ops xs s))"
    by (simp_all add: index_consistent_def)
next
  assume a: "Init stub = ((None, None), stub') \<and> reads_empty_documents d
        \<and> marbles (registry_of d stub) = Map.empty"
  then have "registry_of d stub' = Init_registry (registry_of d stub)"
    using Init_decoded by blast
  with a have "index_consistent (run_ops xs (registry_of d stub'))"
    using index_consistent_run_ops [OF index_consistent_Init_registry, of "registry_of d stub" xs]
    by simp
  then show "set (marbleIndex (run_ops xs (registry_of d stub')))
        = dom (marbles (run_ops xs (registry_of d stub')))"
    and "distinct (marbleIndex (run_ops xs (registry_of d stub')))"
    by (simp_all add: index_consistent_def)
qed

theorem marble_index_matches_live_marbles_witness:
  "set (marbleIndex (run_ops [DeleteMarble ''m1'', CreateMarble ''m3'' ''red'' 5 ''bob'',
          CreateMarble ''m2'' ''red'' 5 ''bob''] trade_registry))
     = dom (marbles (run_ops [DeleteMarble ''m1'', CreateMarble ''m3'' ''red'' 5 ''bob'',
          CreateMarble ''m2'' ''red'' 5 ''bob''] trade_registry))
   \<and> marbleIndex (run_ops [DeleteMarble ''m1'', CreateMarble ''m3'' ''red'' 5 ''bob'',
          CreateMarble ''m2'' ''red'' 5 ''bob''] trade_registry) = [''m2'', ''m3'']
   \<and> set (marbleIndex (run_ops [CreateMarble ''a'' ''red'' 1 ''x'',
          CreateMarble ''b'' ''red'' 1 ''x'', CreateMarble ''a'' ''blue'' 2 ''y'',
          DeleteMarble ''a'', DeleteMarble ''c'']
          (registry_of example_decoders (snd (Init fresh_stub)))))
     = dom (marbles (run_ops [CreateMarble ''a'' ''red'' 1 ''x'',
          CreateMarble ''b'' ''red'' 1 ''x'', CreateMarble ''a'' ''blue'' 2 ''y'',
          DeleteMarble ''a'', DeleteMarble ''c'']
          (registry_of example_decoders (snd (Init fresh_stub)))))
   \<and> marbleIndex (run_ops [CreateMarble ''a'' ''red'' 1 ''x'',
          CreateMarble ''b'' ''red'' 1 ''x'', CreateMarble ''a'' ''blue'' 2 ''y'',
          DeleteMarble ''a'', DeleteMarble ''c'']
          (registry_of example_decoders (snd (Init fresh_stub)))) = [''b'']"
proof -
  let ?xs = "[DeleteMarble ''m1'', CreateMarble ''m3'' ''red'' 5 ''bob'',
          CreateMarble ''m2'' ''red'' 5 ''bob'']"
  let ?ys = "[CreateMarble ''a'' ''red'' 1 ''x'',
          CreateMarble ''b'' ''red'' 1 ''x'', CreateMarble ''a'' ''blue'' 2 ''y'',
          DeleteMarble ''a'', DeleteMarble ''c'']"
  have consistent: "set (marbleIndex trade_registry) = dom (marbles trade_registry)
      \<and> distinct (marbleIndex trade_registry)"
    by (auto simp add: trade_registry_def)
  have init_ok: "Init fresh_stub = ((None, None), snd (Init fresh_stub))"
    by (simp add: Init_fresh)
  have no_record: "marbles (registry_of example_decoders fresh_stub) = Map.empty"
    by (rule ext) (simp add: registry_of_def record_at_def fresh_stub_def healthy_stub_def)
  have a: "set (marbleIndex (run_ops ?xs trade_registry))
             = dom (marbles (run_ops ?xs trade_registry))"
    using marble_index_matches_live_marbles [of trade_registry ?xs] consistent by blast
  have b: "set (marbleIndex (run_ops ?ys (registry_of example_decoders (snd (Init fresh_stub)))))
             = dom (marbles (run_ops ?ys (registry_of example_decoders (snd (Init fresh_stub)))))"
    using marble_index_matches_live_marbles
            [of _ ?ys fresh_stub "snd (Init fresh_stub)" example_decoders]
          init_ok example_reads_empty no_record by blast
  have c: "marbleIndex (run_ops ?xs trade_registry) = [''m2'', ''m3'']"
    by (simp add: trade_registry_def createMarble_def deleteMarble_def addToIndex_def
        removeFromIndex_def)
  have d: "marbleIndex (run_ops ?ys (registry_of example_decoders (snd (Init fresh_stub))))
             = [''b'']"
    by (simp add: Init_fresh registry_of_def record_at_def document_at_def reserved_keys_def
        healthy_stub_def example_decoders_def example_dec_Marble_def
        example_dec_MarblesIndex_def createMarble_def deleteMarble_def addToIndex_def
        removeFromIndex_def marbleIndexStr_def openTradesStr_def ownerIndexStr_def
        empty_MarblesIndex_json_def index_m1_json_def m1_json_def)
  from a b c d show ?thesis by blast
qed

section \<open>The trade engine\<close>

lemma makeTimestamp_example: "makeTimestamp 1234567890 = 1234 \<and> makeTimestamp (- 1999999) = - 1"
  by (simp add: makeTimestamp_def signed_divide_int_def)

text \<open>
  The specification's trade scenario: bob brings a red marble of size 5 to alice's first
  offer; the marbles change hands and the offer leaves the list.
\<close>

lemma performTrade_scenario:
  "fst (performTrade 0 ''bob'' ''m3'' (snd (createMarble ''m3'' ''red'' 5 ''bob'' trade_registry)))
     = None
   \<and> map_option Owner (marbles (snd (performTrade 0 ''bob'' ''m3''
         (snd (createMarble ''m3'' ''red'' 5 ''bob'' trade_registry)))) ''m3'') = Some ''alice''
   \<and> map_option Owner (marbles (snd (performTrade 0 ''bob'' ''m3''
         (snd (createMarble ''m3'' ''red'' 5 ''bob'' trade_registry)))) ''m1'') = Some ''bob''
   \<and> openTrades (snd (performTrade 0 ''bob'' ''m3''
         (snd (createMarble ''m3'' ''red'' 5 ''bob'' trade_registry))))
       = [\<lparr>User = ''alice'', Timestamp = 1, Want = green5, Willing = [white1]\<rparr>]"
  by (simp add: performTrade_def createMarble_def trade_registry_def addToIndex_def
      selectMarble_def offered_def matches_def setOwner_def removeAt_def marble_m1_def
      marble_m2_def red5_def blue10_def Let_def)

lemma cleanTrades_scenario:
  "openTrades (cleanTrades_registry trade_registry)
     = [\<lparr>User = ''alice'', Timestamp = 0, Want = red5, Willing = [blue10]\<rparr>]"
  by (simp add: cleanTrades_registry_def trade_registry_def selectMarble_def offered_def
      matches_def marble_m1_def marble_m2_def blue10_def white1_def)

lemma selectMarble_None:
  assumes "\<forall>n g. marbles s n = Some g \<longrightarrow> \<not> (Owner g = user \<and> (\<exists>d \<in> set willing. matches g d))"
  shows "selectMarble s user willing = None"
  using assms by (auto simp add: selectMarble_def find_None_iff offered_def split: option.splits)

text \<open>
  Claim C3: for a trade index in range and a named marble that exists, if the marble does
  not match the trade's want, or no live marble owned by the trade's user matches an
  entry of its willing list, then performTrade returns the no-match error and the whole
  registry (marble records, both indices, open trades) is what it was.
\<close>

theorem performTrade_no_match:
  assumes "0 \<le> tradeIndex" and "tradeIndex < int (length (openTrades s))"
    and "marbles s marbleName = Some m"
    and "\<not> matches m (Want (openTrades s ! nat tradeIndex))
         \<or> (\<forall>n g. marbles s n = Some g \<longrightarrow>
               \<not> (Owner g = User (openTrades s ! nat tradeIndex)
                  \<and> (\<exists>d \<in> set (Willing (openTrades s ! nat tradeIndex)). matches g d)))"
  shows "performTrade tradeIndex counterpartyOwner marbleName s = (Some NoMatchError, s)"
  using assms selectMarble_None [of s "User (openTrades s ! nat tradeIndex)" "Willing (openTrades s ! nat tradeIndex)"]
  by (auto simp add: performTrade_def Let_def)

theorem performTrade_no_match_witness:
  "performTrade 0 ''bob'' ''m2'' trade_registry = (Some NoMatchError, trade_registry)
   \<and> performTrade 1 ''bob'' ''m2'' trade_registry = (Some NoMatchError, trade_registry)"
proof -
  have m2: "marbles trade_registry ''m2'' = Some marble_m2"
    by (simp add: trade_registry_def)
  have len: "(0::int) \<le> 0" "(0::int) < int (length (openTrades trade_registry))"
    "(0::int) \<le> 1" "(1::int) < int (length (openTrades trade_registry))"
    by (simp_all add: trade_registry_def)
  have want: "\<not> matches marble_m2 (Want (openTrades trade_registry ! nat 0))"
    by (simp add: trade_registry_def matches_def marble_m2_def red5_def)
  have none_to_give: "\<forall>n g. marbles trade_registry n = Some g \<longrightarrow>
               \<not> (Owner g = User (openTrades trade_registry ! nat 1)
                  \<and> (\<exists>d \<in> set (Willing (openTrades trade_registry ! nat 1)). matches g d))"
    by (auto simp add: trade_registry_def matches_def marble_m1_def marble_m2_def white1_def
        split: if_splits)
  have first: "\<not> matches marble_m2 (Want (openTrades trade_registry ! nat 0))
         \<or> (\<forall>n g. marbles trade_registry n = Some g \<longrightarrow>
               \<not> (Owner g = User (openTrades trade_registry ! nat 0)
                  \<and> (\<exists>d \<in> set (Willing (openTrades trade_registry ! nat 0)). matches g d)))"
    by (rule disjI1) (rule want)
  have second: "\<not> matches marble_m2 (Want (openTrades trade_registry ! nat 1))
         \<or> (\<forall>n g. marbles trade_registry n = Some g \<longrightarrow>
               \<not> (Owner g = User (openTrades trade_registry ! nat 1)
                  \<and> (\<exists>d \<in> set (Willing (openTrades trade_registry ! nat 1)). matches g d)))"
    by (rule disjI2) (rule none_to_give)
  have a: "performTrade 0 ''bob'' ''m2'' trade_registry = (Some NoMatchError, trade_registry)"
    by (rule performTrade_no_match [OF len(1) len(2) m2 first])
  have b: "performTrade 1 ''bob'' ''m2'' trade_registry = (Some NoMatchError, trade_registry)"
    by (rule performTrade_no_match [OF len(3) len(4) m2 second])
  from a b show ?thesis by (rule conjI)
qed

lemma offered_openTrades_update:
  "offered (s\<lparr>openTrades := ts\<rparr>) user willing = offered s user willing"
  by (rule ext) (simp add: offered_def)

lemma selectMarble_openTrades_update:
  "selectMarble (s\<lparr>openTrades := ts\<rparr>) user willing = selectMarble s user willing"
  by (simp add: selectMarble_def offered_openTrades_update)

text \<open>
  Claim C4: cleanTrades is idempotent: a second pass right after the first leaves the
  registry, and with it the open trades, as the first pass left them.
\<close>

theorem cleanTrades_idempotent:
  "cleanTrades_registry (cleanTrades_registry s) = cleanTrades_registry s"
  by (simp add: cleanTrades_registry_def selectMarble_openTrades_update)

text \<open>
  Claim C6: openTrade with an empty willing list fails, for every user, want and clock
  reading, and the registry is unchanged: no trade is appended.
\<close>

theorem openTrade_empty_willing_fails:
  "(\<exists>e. fst (openTrade user want [] unixNano s) = Some e)
   \<and> snd (openTrade user want [] unixNano s) = s
   \<and> openTrades (snd (openTrade user want [] unixNano s)) = openTrades s"
  by (simp add: openTrade_def)

end
